theory Spec2Isabelle
  imports Main "HOL-Library.Sublist" "HOL-Library.Word"
begin

section \<open>Strings and numbers of the JavaScript runtime\<close>

text \<open>
  The tools of \<^verbatim>\<open>tools/index.ts\<close> work on JavaScript strings. A string is modelled by
  its UTF-8 encoding, a list of bytes (\<open>string\<close>). The separators the code splits on and
  the letters it compares with are ASCII, and an ASCII byte never lies inside the encoding
  of another character.
\<close>

type_synonym bytes = "8 word list"

text \<open>
  \<^verbatim>\<open>toLowerCase\<close> on the ASCII letters. The bytes of other characters are kept: the code
  compares the result with \<open>png\<close>, \<open>webp\<close>, \<open>jpg\<close>, \<open>jpeg\<close>, \<open>mp4\<close>, \<open>mov\<close> and
  \<open>webm\<close> only, and no character outside ASCII lower-cases to one of their letters.
\<close>

definition toLowerChar :: "char \<Rightarrow> char" where
  "toLowerChar c =
     (case map_of (zip ''ABCDEFGHIJKLMNOPQRSTUVWXYZ'' ''abcdefghijklmnopqrstuvwxyz'') c of
        Some l \<Rightarrow> l
      | None \<Rightarrow> c)"

definition toLowerCase :: "string \<Rightarrow> string" where
  "toLowerCase s = map toLowerChar s"

text \<open>\<^verbatim>\<open>s.split(c)\<close> for a separator of one character: never the empty array.\<close>

fun split_on :: "char \<Rightarrow> string \<Rightarrow> string list" where
  "split_on c [] = [[]]"
| "split_on c (x # xs) =
     (if x = c then [] # split_on c xs
      else (case split_on c xs of
              [] \<Rightarrow> [[x]]
            | t # ts \<Rightarrow> (x # t) # ts))"

text \<open>\<^verbatim>\<open>a.pop()\<close> read as a value: the last element, \<open>undefined\<close> on the empty array.\<close>

definition pop :: "'a list \<Rightarrow> 'a option" where
  "pop xs = (if xs = [] then None else Some (last xs))"

definition is_digit :: "char \<Rightarrow> bool" where
  "is_digit c = (let n = (of_char c :: nat) in 48 \<le> n \<and> n \<le> 57)"

definition digit_val :: "char \<Rightarrow> int" where
  "digit_val c = int (of_char c) - 48"

text \<open>
  White space as \<^verbatim>\<open>parseInt\<close> skips it (WhiteSpace and LineTerminator of ECMAScript):
  the ASCII characters TAB, LF, VT, FF, CR and SP, and in UTF-8 the characters U+00A0,
  U+1680, U+2000 to U+200A, U+2028, U+2029, U+202F, U+205F, U+3000 and U+FEFF.
\<close>

definition is_space :: "char \<Rightarrow> bool" where
  "is_space c = (let n = (of_char c :: nat) in n = 32 \<or> (9 \<le> n \<and> n \<le> 13))"

definition wide_spaces :: "string list" where
  "wide_spaces =
     [[CHR 0xC2, CHR 0xA0], [CHR 0xE1, CHR 0x9A, CHR 0x80],
      [CHR 0xE2, CHR 0x80, CHR 0x80], [CHR 0xE2, CHR 0x80, CHR 0x81],
      [CHR 0xE2, CHR 0x80, CHR 0x82], [CHR 0xE2, CHR 0x80, CHR 0x83],
      [CHR 0xE2, CHR 0x80, CHR 0x84], [CHR 0xE2, CHR 0x80, CHR 0x85],
      [CHR 0xE2, CHR 0x80, CHR 0x86], [CHR 0xE2, CHR 0x80, CHR 0x87],
      [CHR 0xE2, CHR 0x80, CHR 0x88], [CHR 0xE2, CHR 0x80, CHR 0x89],
      [CHR 0xE2, CHR 0x80, CHR 0x8A], [CHR 0xE2, CHR 0x80, CHR 0xA8],
      [CHR 0xE2, CHR 0x80, CHR 0xA9], [CHR 0xE2, CHR 0x80, CHR 0xAF],
      [CHR 0xE2, CHR 0x81, CHR 0x9F], [CHR 0xE3, CHR 0x80, CHR 0x80],
      [CHR 0xEF, CHR 0xBB, CHR 0xBF]]"

fun skip_space :: "string \<Rightarrow> string" where
  "skip_space [] = []"
| "skip_space (c # s) =
     (if is_space c then skip_space s
      else if c # take 1 s \<in> set wide_spaces then skip_space (drop 1 s)
      else if c # take 2 s \<in> set wide_spaces then skip_space (drop 2 s)
      else c # s)"

definition digits_value :: "string \<Rightarrow> int" where
  "digits_value ds = foldl (\<lambda>a d. 10 * a + digit_val d) 0 ds"

text \<open>
  A number as the handlers meet it. The integers up to \<open>2^53\<close> are doubles and are kept
  exactly; of a larger magnitude (the nearest double, or an infinity) only the sign is
  kept: \<open>Huge True\<close> is negative.
\<close>

datatype number = NaN | Finite int | Huge bool

fun isNaN :: "number \<Rightarrow> bool" where
  "isNaN NaN = True"
| "isNaN n = False"

text \<open>The comparison \<^verbatim>\<open>n <= 0\<close>, which is false on \<open>NaN\<close>.\<close>

fun le_zero :: "number \<Rightarrow> bool" where
  "le_zero NaN = False"
| "le_zero (Finite i) = (i \<le> 0)"
| "le_zero (Huge neg) = neg"

text \<open>
  \<^verbatim>\<open>parseInt(s, 10)\<close>: leading white space is skipped, one sign is read, then the
  longest run of decimal digits; whatever follows is ignored. No digit gives \<open>NaN\<close>.
\<close>

definition parseInt :: "string \<Rightarrow> number" where
  "parseInt s =
     (let t = skip_space s;
          neg = (t \<noteq> [] \<and> hd t = CHR ''-'');
          u = (if t \<noteq> [] \<and> (hd t = CHR ''-'' \<or> hd t = CHR ''+'') then tl t else t);
          ds = takeWhile is_digit u
      in if ds = [] then NaN
         else if 9007199254740992 < digits_value ds then Huge neg
         else Finite (if neg then - digits_value ds else digits_value ds))"

definition digit_char :: "nat \<Rightarrow> char" where
  "digit_char d = ''0123456789'' ! d"

fun show_nat :: "nat \<Rightarrow> string" where
  "show_nat n = (if n < 10 then [digit_char n] else show_nat (n div 10) @ [digit_char (n mod 10)])"

declare show_nat.simps [simp del]

section \<open>The size resolver\<close>

datatype orientation = Vertical | Landscape

text \<open>\<^verbatim>\<open>ORIENTATION_SIZES\<close>: the standard dimensions of the two orientations.\<close>

fun ORIENTATION_SIZES :: "orientation \<Rightarrow> string" where
  "ORIENTATION_SIZES Vertical = ''720x1280''"
| "ORIENTATION_SIZES Landscape = ''1280x720''"

text \<open>
  JavaScript's truthiness of an optional string: \<open>undefined\<close> and the empty string are
  both falsy, as in \<^verbatim>\<open>if (size)\<close> and \<^verbatim>\<open>a || b\<close>.
\<close>

fun truthy :: "string option \<Rightarrow> string option" where
  "truthy None = None"
| "truthy (Some s) = (if s = [] then None else Some s)"

text \<open>\<^verbatim>\<open>getVideoSize(orientation?, size?)\<close>.\<close>

definition getVideoSize :: "orientation option \<Rightarrow> string option \<Rightarrow> string" where
  "getVideoSize orientation sz =
     (case orientation of
        Some ori \<Rightarrow> ORIENTATION_SIZES ori
      | None \<Rightarrow>
          (case truthy sz of
             Some s \<Rightarrow> s
           | None \<Rightarrow> ORIENTATION_SIZES Vertical))"

section \<open>JavaScript values\<close>

text \<open>
  What \<^verbatim>\<open>response.json()\<close> returns and what the handlers build. An object is the list
  of its properties in the order they were set (the properties below read an object by
  key, never by position). A number is given by the text that \<^verbatim>\<open>String\<close> prints for it
  (\<open>JNum ''20''\<close>, \<open>JNum ''1e+21''\<close>, \<open>JNum ''0.5''\<close>).
\<close>

datatype jsval =
    JUndefined
  | JNull
  | JBool bool
  | JNum string
  | JStr string
  | JArr "jsval list"
  | JObj "(string \<times> jsval) list"

definition dq :: char where
  "dq = CHR 0x22"

definition nl :: char where
  "nl = CHR 0x0A"

text \<open>
  \<^verbatim>\<open>v.key\<close> for a key that no prototype defines (such as \<^verbatim>\<open>status\<close>): a
  \<open>TypeError\<close> on \<open>null\<close> and \<open>undefined\<close>, \<open>undefined\<close> where the property is missing.
\<close>

fun js_get :: "jsval \<Rightarrow> string \<Rightarrow> string + jsval" where
  "js_get JUndefined k =
     Inl (''Cannot read properties of undefined (reading '' @ [CHR 0x27] @ k @ [CHR 0x27] @ '')'')"
| "js_get JNull k =
     Inl (''Cannot read properties of null (reading '' @ [CHR 0x27] @ k @ [CHR 0x27] @ '')'')"
| "js_get (JObj kvs) k = Inr (case map_of kvs k of Some v \<Rightarrow> v | None \<Rightarrow> JUndefined)"
| "js_get v k = Inr JUndefined"

fun join :: "string \<Rightarrow> string list \<Rightarrow> string" where
  "join sep [] = []"
| "join sep [x] = x"
| "join sep (x # y # ys) = x @ sep @ join sep (y # ys)"

text \<open>
  \<^verbatim>\<open>String(v)\<close>, the conversion a template literal applies to \<^verbatim>\<open>${v}\<close>. It throws
  a \<open>TypeError\<close> on an object that has a property \<open>toString\<close> of its own (no value of
  JSON can be called), and on an array that holds such an object: \<open>unprintable\<close>.
  Elsewhere \<open>js_string\<close> is the text.
\<close>

fun unprintable :: "jsval \<Rightarrow> bool" where
  "unprintable (JObj kvs) = (map_of kvs ''toString'' \<noteq> None)"
| "unprintable (JArr xs) = list_ex unprintable xs"
| "unprintable v = False"

fun js_string :: "jsval \<Rightarrow> string" where
  "js_string JUndefined = ''undefined''"
| "js_string JNull = ''null''"
| "js_string (JBool b) = (if b then ''true'' else ''false'')"
| "js_string (JNum t) = t"
| "js_string (JStr s) = s"
| "js_string (JArr xs) =
     join '','' (map (\<lambda>v. if v = JUndefined \<or> v = JNull then [] else js_string v) xs)"
| "js_string (JObj kvs) = ''[object Object]''"

definition js_to_string :: "jsval \<Rightarrow> string + string" where
  "js_to_string v =
     (if unprintable v then Inl ''Cannot convert object to primitive value''
      else Inr (js_string v))"

text \<open>The own enumerable properties that \<^verbatim>\<open>{...v}\<close> copies.\<close>

fun own_props :: "jsval \<Rightarrow> (string \<times> jsval) list" where
  "own_props (JObj kvs) = kvs"
| "own_props (JArr xs) = zip (map show_nat [0..<length xs]) xs"
| "own_props (JStr s) = zip (map show_nat [0..<length s]) (map (\<lambda>c. JStr [c]) s)"
| "own_props v = []"

text \<open>Setting a property: an existing key keeps its place and takes the new value.\<close>

fun set_prop :: "string \<Rightarrow> jsval \<Rightarrow> (string \<times> jsval) list \<Rightarrow> (string \<times> jsval) list" where
  "set_prop k v [] = [(k, v)]"
| "set_prop k v (p # ps) = (if fst p = k then (k, v) # ps else p # set_prop k v ps)"

text \<open>The object literal \<^verbatim>\<open>{ ...props, ...data }\<close>: the properties of \<open>data\<close> are set last.\<close>

definition spread :: "(string \<times> jsval) list \<Rightarrow> jsval \<Rightarrow> (string \<times> jsval) list" where
  "spread props data = fold (\<lambda>p. set_prop (fst p) (snd p)) (own_props data) props"

section \<open>The world of a tool call\<close>

text \<open>
  An image is its width and height in pixels and the value of the pixel at each place.
  A blob holds the bytes of a file as they were read, or the buffer of a resized image.
\<close>

record image =
  img_width :: nat
  img_height :: nat
  img_pixel :: "nat \<Rightarrow> nat \<Rightarrow> nat"

text \<open>The options object of \<^verbatim>\<open>resize\<close>.\<close>

record resize_options =
  opt_fit :: string
  opt_position :: string

datatype payload = FileBytes bytes | ImageBuffer image

record blob =
  blob_data :: payload
  blob_type :: string

datatype form_value = Field string | File blob string

datatype http_method = GET | POST | DELETE

datatype body = NoBody | JsonText jsval | FormData "(string \<times> form_value) list"

record request =
  req_method :: http_method
  req_url :: string
  req_headers :: "(string \<times> string) list"
  req_body :: body

text \<open>
  A response of the remote service: its status, and its body as \<^verbatim>\<open>text()\<close>,
  \<^verbatim>\<open>json()\<close> (\<open>Inl\<close> when the body is not JSON) and \<^verbatim>\<open>arrayBuffer()\<close> read it.
\<close>

record response =
  status :: nat
  body_text :: string
  body_json :: "string + jsval"
  body_bytes :: bytes

definition response_ok :: "response \<Rightarrow> bool" where
  "response_ok r = (200 \<le> status r \<and> status r \<le> 299)"

text \<open>
  Everything outside the handlers: the process environment, Node's \<^verbatim>\<open>path\<close>, \<^verbatim>\<open>os\<close>
  and \<^verbatim>\<open>fs/promises\<close> modules, the remote service behind \<^verbatim>\<open>fetch\<close>, and of sharp
  what the specification leaves open: the images it can decode, the resampling that gives
  the pixels of a scaled image (\<open>sharp_scale w img sw sh x y\<close> is the pixel at \<open>(x, y)\<close> of
  \<open>img\<close> scaled to \<open>sw\<close> by \<open>sh\<close>), the requests it refuses (every output format has a
  largest size), and what it does under other options than the ones specified. A failing
  call gives the message of the error it throws.
\<close>

record world =
  env_OPENAI_API_KEY :: "string option"
  env_DOWNLOAD_DIR :: "string option"
  homedir :: string
  path_resolve :: "string \<Rightarrow> string"
  path_basename :: "string \<Rightarrow> string"
  path_join :: "string \<Rightarrow> string \<Rightarrow> string"
  fs_stat :: "string \<Rightarrow> string option"
  fs_readFile :: "string \<Rightarrow> string + bytes"
  fs_mkdir :: "string \<Rightarrow> string option"
  fs_writeFile :: "string \<Rightarrow> bytes \<Rightarrow> string option"
  sharp_decode :: "string \<Rightarrow> string + image"
  sharp_scale :: "image \<Rightarrow> nat \<Rightarrow> nat \<Rightarrow> nat \<Rightarrow> nat \<Rightarrow> nat"
  sharp_refuses :: "string \<Rightarrow> int \<Rightarrow> int \<Rightarrow> string option"
  sharp_other :: "string \<Rightarrow> number \<Rightarrow> number \<Rightarrow> resize_options \<Rightarrow> string + image"
  remote :: "request \<Rightarrow> string + response"

text \<open>What a handler does to the world, in order.\<close>

datatype effect =
    Stat string
  | Resize string number number resize_options
  | ReadFile string
  | Fetch request
  | Mkdir string
  | WriteFile string bytes

text \<open>
  The result envelope. A text is a string, or \<^verbatim>\<open>JSON.stringify(v, null, 2)\<close> of a value
  (\<open>Stringified v\<close>).
\<close>

datatype text_value = Plain string | Stringified jsval

record content_block =
  block_type :: string
  block_text :: text_value

record envelope =
  content :: "content_block list"
  structuredContent :: "jsval option"
  isError :: bool

record outcome =
  performed :: "effect list"
  returned :: envelope

definition success_envelope :: "text_value \<Rightarrow> jsval \<Rightarrow> envelope" where
  "success_envelope t output =
     \<lparr>content = [\<lparr>block_type = ''text'', block_text = t\<rparr>],
      structuredContent = Some output, isError = False\<rparr>"

definition error_envelope :: "string \<Rightarrow> envelope" where
  "error_envelope msg =
     \<lparr>content = [\<lparr>block_type = ''text'', block_text = Plain msg\<rparr>],
      structuredContent = None, isError = True\<rparr>"

text \<open>
  The \<^verbatim>\<open>try { ... } catch (error) { ... }\<close> around every handler: a thrown error
  becomes the error envelope with the handler's prefix.
\<close>

definition catch_all :: "string \<Rightarrow> effect list \<times> (string + envelope) \<Rightarrow> outcome" where
  "catch_all label r =
     \<lparr>performed = fst r,
      returned = (case snd r of Inl msg \<Rightarrow> error_envelope (label @ msg) | Inr e \<Rightarrow> e)\<rparr>"

definition SORA_API_BASE :: string where
  "SORA_API_BASE = ''https://api.openai.com/v1''"

definition getDownloadDir :: "world \<Rightarrow> string" where
  "getDownloadDir w =
     (case truthy (env_DOWNLOAD_DIR w) of
        Some d \<Rightarrow> d
      | None \<Rightarrow> path_join w (homedir w) ''Downloads'')"

definition getApiKey :: "world \<Rightarrow> string + string" where
  "getApiKey w =
     (case truthy (env_OPENAI_API_KEY w) of
        None \<Rightarrow> Inl ''OPENAI_API_KEY environment variable is required''
      | Some apiKey \<Rightarrow> Inr apiKey)"

definition bearer :: "string \<Rightarrow> (string \<times> string) list" where
  "bearer apiKey = [(''Authorization'', ''Bearer '' @ apiKey)]"

text \<open>The message of \<^verbatim>\<open>`${label}${response.status} - ${errorText}`\<close>.\<close>

definition api_error :: "string \<Rightarrow> response \<Rightarrow> string" where
  "api_error label r = label @ show_nat (status r) @ '' - '' @ body_text r"

text \<open>
  The block every handler repeats after its \<^verbatim>\<open>fetch\<close>: throw on a response that is
  not ok, else read the body as JSON.
\<close>

definition fetch_json :: "world \<Rightarrow> request \<Rightarrow> string + jsval" where
  "fetch_json w req =
     (case remote w req of
        Inl e \<Rightarrow> Inl e
      | Inr r \<Rightarrow>
          if \<not> response_ok r then Inl (api_error ''Sora API error: '' r)
          else body_json r)"

section \<open>Tool 1: create-video\<close>

record create_args =
  cv_prompt :: string
  cv_model :: "string option"
  cv_seconds :: "string option"
  cv_orientation :: "orientation option"
  cv_size :: "string option"
  cv_input_reference :: "string option"

text \<open>The MIME type from the extension of the file name.\<close>

definition detect_mime :: "string \<Rightarrow> string" where
  "detect_mime filename =
     (let ext = pop (split_on CHR ''.'' (toLowerCase filename))
      in if ext = Some ''png'' then ''image/png''
         else if ext = Some ''webp'' then ''image/webp''
         else if ext = Some ''jpg'' \<or> ext = Some ''jpeg'' then ''image/jpeg''
         else if ext = Some ''mp4'' then ''video/mp4''
         else if ext = Some ''mov'' then ''video/quicktime''
         else if ext = Some ''webm'' then ''video/webm''
         else ''image/jpeg'')"

text \<open>
  Modelled from the spec: \<^verbatim>\<open>sharp(path).resize(w, h, {fit: 'cover', position: 'center'})\<close>
  of the sharp library, which is not part of the sources. Cover-fit: the image is scaled,
  keeping its aspect ratio, to the smallest size that covers the target box (the side that
  overflows is rounded up to whole pixels); the overflow is cropped evenly around the
  centre (an odd pixel goes to the left and the top margin).
\<close>

definition cover_centre :: resize_options where
  "cover_centre = \<lparr>opt_fit = ''cover'', opt_position = ''center''\<rparr>"

definition cover_scaled :: "nat \<Rightarrow> nat \<Rightarrow> image \<Rightarrow> nat \<times> nat" where
  "cover_scaled tw th img =
     (let w = img_width img; h = img_height img
      in if w * th \<le> h * tw then (tw, (h * tw + w - 1) div w)
         else ((w * th + h - 1) div h, th))"

definition scale_image :: "world \<Rightarrow> image \<Rightarrow> nat \<times> nat \<Rightarrow> image" where
  "scale_image w img scaled =
     \<lparr>img_width = fst scaled, img_height = snd scaled,
      img_pixel = sharp_scale w img (fst scaled) (snd scaled)\<rparr>"

record crop_box =
  crop_left :: nat
  crop_top :: nat
  crop_width :: nat
  crop_height :: nat

definition centre_crop :: "nat \<Rightarrow> nat \<Rightarrow> nat \<times> nat \<Rightarrow> crop_box" where
  "centre_crop tw th scaled =
     (let left = (fst scaled - tw + 1) div 2; top = (snd scaled - th + 1) div 2
      in \<lparr>crop_left = left, crop_top = top,
          crop_width = min tw (fst scaled - left), crop_height = min th (snd scaled - top)\<rparr>)"

definition crop_image :: "crop_box \<Rightarrow> image \<Rightarrow> image" where
  "crop_image box img =
     \<lparr>img_width = crop_width box, img_height = crop_height box,
      img_pixel = (\<lambda>x y. img_pixel img (crop_left box + x) (crop_top box + y))\<rparr>"

text \<open>
  The call itself. The specification describes it for the options cover and center and a
  width and height that are positive integers; a number beyond the exact integers is no
  size of an image and is refused.
\<close>

definition sharp_resize ::
  "world \<Rightarrow> string \<Rightarrow> number \<Rightarrow> number \<Rightarrow> resize_options \<Rightarrow> string + image" where
  "sharp_resize w filePath targetWidth targetHeight options =
     (if options \<noteq> cover_centre then sharp_other w filePath targetWidth targetHeight options
      else
        (case (targetWidth, targetHeight) of
           (Finite tw, Finite th) \<Rightarrow>
             if tw \<le> 0 \<or> th \<le> 0 then Inl ''Expected positive integer for width and height''
             else
               (case sharp_decode w filePath of
                  Inl e \<Rightarrow> Inl e
                | Inr img \<Rightarrow>
                    (case sharp_refuses w filePath tw th of
                       Some e \<Rightarrow> Inl e
                     | None \<Rightarrow>
                         let scaled = cover_scaled (nat tw) (nat th) img
                         in Inr (crop_image (centre_crop (nat tw) (nat th) scaled)
                                   (scale_image w img scaled))))
         | _ \<Rightarrow> Inl ''Expected positive integer for width and height''))"

definition invalid_size_format :: "string \<Rightarrow> string" where
  "invalid_size_format finalSize =
     ''Invalid size format: '' @ finalSize @ ''. Expected format: '' @ [dq] @ ''widthxheight''
       @ [dq] @ '' (e.g., '' @ [dq] @ ''720x1280'' @ [dq] @ '')''"

definition invalid_size_dimensions :: "string \<Rightarrow> string" where
  "invalid_size_dimensions finalSize =
     ''Invalid size dimensions: '' @ finalSize @ ''. Width and height must be positive numbers.''"

text \<open>
  The body of the inner \<^verbatim>\<open>try\<close> of create-video: the effects performed, and the
  \<^verbatim>\<open>input_reference\<close> part to append to the form or the message of the error thrown.
\<close>

definition read_input_reference ::
  "world \<Rightarrow> string \<Rightarrow> string \<Rightarrow> effect list \<times> (string + (string \<times> form_value))" where
  "read_input_reference w finalSize input_reference =
     (let filePath = path_resolve w input_reference
      in case fs_stat w filePath of
           Some e \<Rightarrow> ([Stat filePath], Inl e)
         | None \<Rightarrow>
             let filename = path_basename w filePath;
                 mimeType = detect_mime filename;
                 sizeParts = split_on CHR ''x'' finalSize
             in if length sizeParts \<noteq> 2 then ([Stat filePath], Inl (invalid_size_format finalSize))
                else
                  let targetWidth = parseInt (sizeParts ! 0);
                      targetHeight = parseInt (sizeParts ! 1)
                  in if isNaN targetWidth \<or> isNaN targetHeight \<or> le_zero targetWidth
                          \<or> le_zero targetHeight
                     then ([Stat filePath], Inl (invalid_size_dimensions finalSize))
                     else if prefix ''image/'' mimeType then
                       (case sharp_resize w filePath targetWidth targetHeight cover_centre of
                          Inl e \<Rightarrow>
                            ([Stat filePath,
                              Resize filePath targetWidth targetHeight cover_centre], Inl e)
                        | Inr resizedBuffer \<Rightarrow>
                            ([Stat filePath,
                              Resize filePath targetWidth targetHeight cover_centre],
                             Inr (''input_reference'',
                                  File \<lparr>blob_data = ImageBuffer resizedBuffer,
                                        blob_type = mimeType\<rparr> filename)))
                     else
                       (case fs_readFile w filePath of
                          Inl e \<Rightarrow> ([Stat filePath, ReadFile filePath], Inl e)
                        | Inr fileBuffer \<Rightarrow>
                            ([Stat filePath, ReadFile filePath],
                             Inr (''input_reference'',
                                  File \<lparr>blob_data = FileBytes fileBuffer,
                                        blob_type = mimeType\<rparr> filename))))"

text \<open>The inner \<^verbatim>\<open>catch (fileError)\<close>, and the form without a reference file.\<close>

definition prepare_media ::
  "world \<Rightarrow> string \<Rightarrow> string option \<Rightarrow> effect list \<times> (string + (string \<times> form_value) list)" where
  "prepare_media w finalSize input_reference =
     (case truthy input_reference of
        None \<Rightarrow> ([], Inr [])
      | Some p \<Rightarrow>
          (case read_input_reference w finalSize p of
             (effs, Inl e) \<Rightarrow> (effs, Inl (''Failed to process input_reference file: '' @ e))
           | (effs, Inr part) \<Rightarrow> (effs, Inr [part])))"

definition create_request :: "string \<Rightarrow> (string \<times> form_value) list \<Rightarrow> request" where
  "create_request apiKey formData =
     \<lparr>req_method = POST, req_url = SORA_API_BASE @ ''/videos'',
      req_headers = bearer apiKey, req_body = FormData formData\<rparr>"

text \<open>The four fields every form carries, with the defaults of the parameters.\<close>

definition form_fields :: "create_args \<Rightarrow> string \<Rightarrow> (string \<times> form_value) list" where
  "form_fields a finalSize =
     (let model = (case cv_model a of None \<Rightarrow> ''sora-2'' | Some m \<Rightarrow> m);
          seconds = (case cv_seconds a of None \<Rightarrow> ''4'' | Some sec \<Rightarrow> sec)
      in [(''model'', Field model), (''prompt'', Field (cv_prompt a)),
          (''seconds'', Field seconds), (''size'', Field finalSize)])"

definition create_video_body :: "world \<Rightarrow> create_args \<Rightarrow> effect list \<times> (string + envelope)" where
  "create_video_body w a =
     (case getApiKey w of
        Inl e \<Rightarrow> ([], Inl e)
      | Inr apiKey \<Rightarrow>
          let finalSize = getVideoSize (cv_orientation a) (cv_size a);
              formData = form_fields a finalSize
          in case prepare_media w finalSize (cv_input_reference a) of
               (effs, Inl e) \<Rightarrow> (effs, Inl e)
             | (effs, Inr parts) \<Rightarrow>
                 let req = create_request apiKey (formData @ parts)
                 in (effs @ [Fetch req],
                     case fetch_json w req of
                       Inl e \<Rightarrow> Inl e
                     | Inr output \<Rightarrow> Inr (success_envelope (Stringified output) output)))"

definition create_video :: "world \<Rightarrow> create_args \<Rightarrow> outcome" where
  "create_video w a = catch_all ''Error creating video: '' (create_video_body w a)"

section \<open>Tools 2 to 4: remix-video, get-video-status, list-videos\<close>

definition remix_video_body :: "world \<Rightarrow> string \<Rightarrow> string \<Rightarrow> effect list \<times> (string + envelope)" where
  "remix_video_body w video_id prompt =
     (case getApiKey w of
        Inl e \<Rightarrow> ([], Inl e)
      | Inr apiKey \<Rightarrow>
          let req = \<lparr>req_method = POST,
                     req_url = SORA_API_BASE @ ''/videos/'' @ video_id @ ''/remix'',
                     req_headers = bearer apiKey @ [(''Content-Type'', ''application/json'')],
                     req_body = JsonText (JObj [(''prompt'', JStr prompt)])\<rparr>
          in ([Fetch req],
              case fetch_json w req of
                Inl e \<Rightarrow> Inl e
              | Inr output \<Rightarrow> Inr (success_envelope (Stringified output) output)))"

definition remix_video :: "world \<Rightarrow> string \<Rightarrow> string \<Rightarrow> outcome" where
  "remix_video w video_id prompt =
     catch_all ''Error remixing video: '' (remix_video_body w video_id prompt)"

definition status_request :: "string \<Rightarrow> string \<Rightarrow> request" where
  "status_request apiKey video_id =
     \<lparr>req_method = GET, req_url = SORA_API_BASE @ ''/videos/'' @ video_id,
      req_headers = bearer apiKey, req_body = NoBody\<rparr>"

definition get_video_status_body :: "world \<Rightarrow> string \<Rightarrow> effect list \<times> (string + envelope)" where
  "get_video_status_body w video_id =
     (case getApiKey w of
        Inl e \<Rightarrow> ([], Inl e)
      | Inr apiKey \<Rightarrow>
          let req = status_request apiKey video_id
          in ([Fetch req],
              case fetch_json w req of
                Inl e \<Rightarrow> Inl e
              | Inr output \<Rightarrow> Inr (success_envelope (Stringified output) output)))"

definition get_video_status :: "world \<Rightarrow> string \<Rightarrow> outcome" where
  "get_video_status w video_id =
     catch_all ''Error getting video status: '' (get_video_status_body w video_id)"

datatype sort_order = Asc | Desc

fun order_name :: "sort_order \<Rightarrow> string" where
  "order_name Asc = ''asc''"
| "order_name Desc = ''desc''"

text \<open>The limit is a number, given like \<open>JNum\<close> by the text \<^verbatim>\<open>String(limit)\<close> prints.\<close>

record list_args =
  lv_limit :: "string option"
  lv_after :: "string option"
  lv_order :: "sort_order option"

text \<open>
  \<^verbatim>\<open>URLSearchParams.toString()\<close>: the application/x-www-form-urlencoded form of the
  parameters.
\<close>

definition hex_digit :: "nat \<Rightarrow> char" where
  "hex_digit d = ''0123456789ABCDEF'' ! d"

definition url_safe :: "char \<Rightarrow> bool" where
  "url_safe c =
     (let n = (of_char c :: nat)
      in (48 \<le> n \<and> n \<le> 57) \<or> (65 \<le> n \<and> n \<le> 90) \<or> (97 \<le> n \<and> n \<le> 122)
         \<or> c \<in> set ''*-._'')"

definition encode_char :: "char \<Rightarrow> string" where
  "encode_char c =
     (if url_safe c then [c]
      else if c = CHR '' '' then ''+''
      else [CHR ''%'', hex_digit (of_char c div 16), hex_digit (of_char c mod 16)])"

definition params_toString :: "(string \<times> string) list \<Rightarrow> string" where
  "params_toString params =
     join ''&'' (map (\<lambda>p. concat (map encode_char (fst p)) @ ''='' @ concat (map encode_char (snd p)))
                  params)"

definition list_videos_body :: "world \<Rightarrow> list_args \<Rightarrow> effect list \<times> (string + envelope)" where
  "list_videos_body w a =
     (case getApiKey w of
        Inl e \<Rightarrow> ([], Inl e)
      | Inr apiKey \<Rightarrow>
          let limit = (case lv_limit a of None \<Rightarrow> ''20'' | Some n \<Rightarrow> n);
              ord = (case lv_order a of None \<Rightarrow> Desc | Some d \<Rightarrow> d);
              params = [(''limit'', limit)]
                       @ (case truthy (lv_after a) of None \<Rightarrow> [] | Some x \<Rightarrow> [(''after'', x)])
                       @ [(''order'', order_name ord)];
              req = \<lparr>req_method = GET,
                     req_url = SORA_API_BASE @ ''/videos?'' @ params_toString params,
                     req_headers = bearer apiKey, req_body = NoBody\<rparr>
          in ([Fetch req],
              case fetch_json w req of
                Inl e \<Rightarrow> Inl e
              | Inr output \<Rightarrow> Inr (success_envelope (Stringified output) output)))"

definition list_videos :: "world \<Rightarrow> list_args \<Rightarrow> outcome" where
  "list_videos w a = catch_all ''Error listing videos: '' (list_videos_body w a)"

section \<open>Tools 5 to 7: download-video, save-video, delete-video\<close>

definition not_ready_message :: "string \<Rightarrow> string" where
  "not_ready_message statusText = ''Video is not ready yet. Current status: '' @ statusText"

definition content_url :: "string \<Rightarrow> string" where
  "content_url video_id = SORA_API_BASE @ ''/videos/'' @ video_id @ ''/content''"

definition curl_command :: "string \<Rightarrow> string \<Rightarrow> string \<Rightarrow> string" where
  "curl_command apiKey downloadUrl video_id =
     ''curl -H '' @ [dq] @ ''Authorization: Bearer '' @ apiKey @ [dq] @ '' '' @ [dq] @ downloadUrl
       @ [dq] @ '' -o '' @ [dq] @ video_id @ ''.mp4'' @ [dq]"

definition download_ready_text :: "string \<Rightarrow> string \<Rightarrow> string" where
  "download_ready_text video_id curlCommand =
     ''Video '' @ video_id @ '' is ready for download!'' @ [nl, nl]
       @ ''To download the video, run this command in your terminal:'' @ [nl, nl]
       @ curlCommand @ [nl, nl] @ ''This will save the video as '' @ [dq] @ video_id @ ''.mp4''
       @ [dq] @ '' in your current directory.''"

definition download_video_body ::
  "world \<Rightarrow> string \<Rightarrow> string option \<Rightarrow> effect list \<times> (string + envelope)" where
  "download_video_body w video_id variant =
     (case getApiKey w of
        Inl e \<Rightarrow> ([], Inl e)
      | Inr apiKey \<Rightarrow>
          let req = status_request apiKey video_id
          in ([Fetch req],
              case fetch_json w req of
                Inl e \<Rightarrow> Inl e
              | Inr statusData \<Rightarrow>
                  (case js_get statusData ''status'' of
                     Inl e \<Rightarrow> Inl e
                   | Inr st \<Rightarrow>
                       if st \<noteq> JStr ''completed'' then
                         (case js_to_string st of
                            Inl e \<Rightarrow> Inl e
                          | Inr statusText \<Rightarrow>
                              let output = JObj
                                    [(''video_id'', JStr video_id),
                                     (''status'', st),
                                     (''message'', JStr (not_ready_message statusText)),
                                     (''download_instructions'',
                                      JStr ''Video is not ready for download yet.''),
                                     (''curl_command'', JStr [])]
                              in Inr (success_envelope (Stringified output) output))
                       else
                         let params = (case truthy variant of
                                         Some v \<Rightarrow> ''?variant='' @ v
                                       | None \<Rightarrow> []);
                             downloadUrl = content_url video_id @ params;
                             curlCommand = curl_command apiKey downloadUrl video_id;
                             output = JObj
                               [(''video_id'', JStr video_id),
                                (''status'', JStr ''completed''),
                                (''message'', JStr
                                   ''Video is ready for download! Use the curl command below to download it.''),
                                (''download_instructions'', JStr
                                   ''The video requires authentication. Use the provided curl command or add Authorization header with your API key.''),
                                (''curl_command'', JStr curlCommand)]
                         in Inr (success_envelope
                                   (Plain (download_ready_text video_id curlCommand)) output))))"

definition download_video :: "world \<Rightarrow> string \<Rightarrow> string option \<Rightarrow> outcome" where
  "download_video w video_id variant =
     catch_all ''Error preparing video download: '' (download_video_body w video_id variant)"

record save_args =
  sv_video_id :: string
  sv_output_path :: "string option"
  sv_filename :: "string option"

definition content_request :: "string \<Rightarrow> string \<Rightarrow> request" where
  "content_request apiKey video_id =
     \<lparr>req_method = GET, req_url = content_url video_id,
      req_headers = bearer apiKey, req_body = NoBody\<rparr>"

text \<open>The check mark U+2705 that opens the text of a saved video, in UTF-8.\<close>

definition check_mark :: string where
  "check_mark = [CHR 0xE2, CHR 0x9C, CHR 0x85]"

definition saved_text :: "string \<Rightarrow> string" where
  "saved_text fullPath =
     check_mark @ '' Video downloaded successfully!'' @ [nl, nl] @ ''Saved to: '' @ fullPath
       @ [nl, nl] @ ''You can now open and watch your video!''"

text \<open>The second half of save-video, once the status is \<^verbatim>\<open>completed\<close>.\<close>

definition download_and_save ::
  "world \<Rightarrow> string \<Rightarrow> save_args \<Rightarrow> effect list \<times> (string + envelope)" where
  "download_and_save w apiKey a =
     (let video_id = sv_video_id a;
          req = content_request apiKey video_id
      in case remote w req of
           Inl e \<Rightarrow> ([Fetch req], Inl e)
         | Inr videoResponse \<Rightarrow>
             if \<not> response_ok videoResponse
             then ([Fetch req], Inl (api_error ''Failed to download video: '' videoResponse))
             else
               let videoBuffer = body_bytes videoResponse;
                   saveDir = (case truthy (sv_output_path a) of
                                Some p \<Rightarrow> path_resolve w p
                              | None \<Rightarrow> getDownloadDir w);
                   saveFilename = (case truthy (sv_filename a) of
                                     Some f \<Rightarrow> f
                                   | None \<Rightarrow> video_id @ ''.mp4'');
                   fullPath = path_join w saveDir saveFilename
               in case fs_mkdir w saveDir of
                    Some e \<Rightarrow> ([Fetch req, Mkdir saveDir], Inl e)
                  | None \<Rightarrow>
                      (case fs_writeFile w fullPath videoBuffer of
                         Some e \<Rightarrow>
                           ([Fetch req, Mkdir saveDir, WriteFile fullPath videoBuffer], Inl e)
                       | None \<Rightarrow>
                           let output = JObj
                                 [(''video_id'', JStr video_id),
                                  (''status'', JStr ''saved''),
                                  (''file_path'', JStr fullPath),
                                  (''message'', JStr (''Video saved successfully to '' @ fullPath))]
                           in ([Fetch req, Mkdir saveDir, WriteFile fullPath videoBuffer],
                               Inr (success_envelope (Plain (saved_text fullPath)) output))))"

definition save_video_body :: "world \<Rightarrow> save_args \<Rightarrow> effect list \<times> (string + envelope)" where
  "save_video_body w a =
     (case getApiKey w of
        Inl e \<Rightarrow> ([], Inl e)
      | Inr apiKey \<Rightarrow>
          let video_id = sv_video_id a;
              req = status_request apiKey video_id
          in case fetch_json w req of
               Inl e \<Rightarrow> ([Fetch req], Inl e)
             | Inr statusData \<Rightarrow>
                 (case js_get statusData ''status'' of
                    Inl e \<Rightarrow> ([Fetch req], Inl e)
                  | Inr st \<Rightarrow>
                      if st \<noteq> JStr ''completed'' then
                        (case js_to_string st of
                           Inl e \<Rightarrow> ([Fetch req], Inl e)
                         | Inr statusText \<Rightarrow>
                             let output = JObj
                                   [(''video_id'', JStr video_id),
                                    (''status'', st),
                                    (''file_path'', JStr []),
                                    (''message'', JStr (not_ready_message statusText))]
                             in ([Fetch req],
                                 Inr (success_envelope (Stringified output) output)))
                      else
                        (case download_and_save w apiKey a of
                           (effs, r) \<Rightarrow> (Fetch req # effs, r))))"

definition save_video :: "world \<Rightarrow> save_args \<Rightarrow> outcome" where
  "save_video w a = catch_all ''Error saving video: '' (save_video_body w a)"

definition delete_request :: "string \<Rightarrow> string \<Rightarrow> request" where
  "delete_request apiKey video_id =
     \<lparr>req_method = DELETE, req_url = SORA_API_BASE @ ''/videos/'' @ video_id,
      req_headers = bearer apiKey, req_body = NoBody\<rparr>"

definition delete_fields :: "string \<Rightarrow> (string \<times> jsval) list" where
  "delete_fields video_id =
     [(''id'', JStr video_id),
      (''deleted'', JBool True),
      (''message'', JStr (''Successfully deleted video '' @ video_id))]"

definition delete_video_body :: "world \<Rightarrow> string \<Rightarrow> effect list \<times> (string + envelope)" where
  "delete_video_body w video_id =
     (case getApiKey w of
        Inl e \<Rightarrow> ([], Inl e)
      | Inr apiKey \<Rightarrow>
          let req = delete_request apiKey video_id
          in ([Fetch req],
              case fetch_json w req of
                Inl e \<Rightarrow> Inl e
              | Inr data \<Rightarrow>
                  let output = JObj (spread (delete_fields video_id) data)
                  in Inr (success_envelope (Stringified output) output)))"

definition delete_video :: "world \<Rightarrow> string \<Rightarrow> outcome" where
  "delete_video w video_id = catch_all ''Error deleting video: '' (delete_video_body w video_id)"

section \<open>The registered tools\<close>

datatype tool_call =
    CreateVideo create_args
  | RemixVideo string string
  | GetVideoStatus string
  | ListVideos list_args
  | DownloadVideo string "string option"
  | SaveVideo save_args
  | DeleteVideo string

fun call_tool :: "world \<Rightarrow> tool_call \<Rightarrow> outcome" where
  "call_tool w (CreateVideo a) = create_video w a"
| "call_tool w (RemixVideo video_id prompt) = remix_video w video_id prompt"
| "call_tool w (GetVideoStatus video_id) = get_video_status w video_id"
| "call_tool w (ListVideos a) = list_videos w a"
| "call_tool w (DownloadVideo video_id variant) = download_video w video_id variant"
| "call_tool w (SaveVideo a) = save_video w a"
| "call_tool w (DeleteVideo video_id) = delete_video w video_id"

section \<open>Notions used to state the properties\<close>

text \<open>\<^verbatim>\<open>formData.get(name)\<close> of the form a request carries.\<close>

definition form_field :: "request \<Rightarrow> string \<Rightarrow> form_value option" where
  "form_field req name = (case req_body req of FormData fd \<Rightarrow> map_of fd name | _ \<Rightarrow> None)"

text \<open>
  The specification's words for a well-formed size: the string splits on \<open>x\<close> into exactly
  two tokens, each a positive decimal integer.
\<close>

definition positive_integer_token :: "string \<Rightarrow> bool" where
  "positive_integer_token t = (t \<noteq> [] \<and> list_all is_digit t \<and> 0 < digits_value t)"

definition conforming_size :: "string \<Rightarrow> bool" where
  "conforming_size s =
     (case split_on CHR ''x'' s of
        [a, b] \<Rightarrow> positive_integer_token a \<and> positive_integer_token b
      | _ \<Rightarrow> False)"

text \<open>The sizes for which the checks of create-video throw.\<close>

definition size_rejected :: "string \<Rightarrow> bool" where
  "size_rejected finalSize =
     (let sizeParts = split_on CHR ''x'' finalSize
      in length sizeParts \<noteq> 2 \<or>
         isNaN (parseInt (sizeParts ! 0)) \<or> isNaN (parseInt (sizeParts ! 1)) \<or>
         le_zero (parseInt (sizeParts ! 0)) \<or> le_zero (parseInt (sizeParts ! 1)))"

definition size_error :: "string \<Rightarrow> string" where
  "size_error finalSize =
     (if length (split_on CHR ''x'' finalSize) \<noteq> 2 then invalid_size_format finalSize
      else invalid_size_dimensions finalSize)"

text \<open>The table of the extensions that create-video tells apart.\<close>

definition mime_table :: "string \<Rightarrow> string option" where
  "mime_table =
     map_of [(''png'', ''image/png''), (''webp'', ''image/webp''), (''jpg'', ''image/jpeg''),
             (''jpeg'', ''image/jpeg''), (''mp4'', ''video/mp4''), (''mov'', ''video/quicktime''),
             (''webm'', ''video/webm'')]"

section \<open>Sample worlds\<close>

definition sample_world :: "(request \<Rightarrow> string + response) \<Rightarrow> world" where
  "sample_world net =
     \<lparr>env_OPENAI_API_KEY = Some ''sk-test'',
      env_DOWNLOAD_DIR = None,
      homedir = ''/home/user'',
      path_resolve = (\<lambda>p. ''/work/'' @ p),
      path_basename = (\<lambda>p. last (split_on CHR ''/'' p)),
      path_join = (\<lambda>d f. d @ ''/'' @ f),
      fs_stat = (\<lambda>p. if p = ''/work/missing.png''
                       then Some ''ENOENT: no such file or directory'' else None),
      fs_readFile = (\<lambda>p. Inr [0x1A, 0x45, 0xDF, 0xA3]),
      fs_mkdir = (\<lambda>p. None),
      fs_writeFile = (\<lambda>p b. None),
      sharp_decode = (\<lambda>p. Inr \<lparr>img_width = 1920, img_height = 1080, img_pixel = (\<lambda>x y. 0)\<rparr>),
      sharp_scale = (\<lambda>img sw sh x y. 0),
      sharp_refuses = (\<lambda>p tw th. None),
      sharp_other = (\<lambda>p tw th opts. Inl ''unsupported options''),
      remote = net\<rparr>"

definition json_response :: "nat \<Rightarrow> jsval \<Rightarrow> response" where
  "json_response code v =
     \<lparr>status = code, body_text = ''(json)'', body_json = Inr v, body_bytes = []\<rparr>"

definition not_found :: response where
  "not_found =
     \<lparr>status = 404, body_text = ''Video not found'',
      body_json = Inl ''Unexpected token'', body_bytes = []\<rparr>"

definition sample_create :: "string option \<Rightarrow> string option \<Rightarrow> create_args" where
  "sample_create sz ref =
     \<lparr>cv_prompt = ''a cat'', cv_model = None, cv_seconds = None, cv_orientation = None,
      cv_size = sz, cv_input_reference = ref\<rparr>"

definition ok_world :: world where
  "ok_world = sample_world (\<lambda>req. Inr (json_response 200
       (JObj [(''id'', JStr ''video_123''), (''status'', JStr ''queued'')])))"

definition failing_world :: world where
  "failing_world = sample_world (\<lambda>req. Inr not_found)"

definition progress_world :: world where
  "progress_world = sample_world (\<lambda>req. Inr (json_response 200
       (JObj [(''id'', JStr ''abc123''), (''status'', JStr ''in_progress'')])))"

definition completed_world :: world where
  "completed_world = sample_world (\<lambda>req. Inr (json_response 200
       (JObj [(''id'', JStr ''abc123''), (''status'', JStr ''completed'')])))"

definition deleted_reply :: "bool \<Rightarrow> jsval" where
  "deleted_reply b =
     JObj [(''id'', JStr ''xyz''), (''object'', JStr ''video.deleted''), (''deleted'', JBool b)]"

definition deleting_world :: "bool \<Rightarrow> world" where
  "deleting_world b = sample_world (\<lambda>req. Inr (json_response 200 (deleted_reply b)))"

definition sample_save :: save_args where
  "sample_save = \<lparr>sv_video_id = ''abc123'', sv_output_path = None, sv_filename = None\<rparr>"

lemmas sample_defs = ok_world_def failing_world_def progress_world_def completed_world_def
  deleted_reply_def deleting_world_def sample_save_def sample_world_def json_response_def
  not_found_def sample_create_def

lemmas handler_defs = create_video_def create_video_body_def prepare_media_def
  read_input_reference_def form_fields_def create_request_def catch_all_def getApiKey_def
  fetch_json_def response_ok_def status_request_def bearer_def success_envelope_def
  error_envelope_def getVideoSize_def Let_def

lemmas string_defs = toLowerCase_def toLowerChar_def pop_def parseInt_def is_space_def
  wide_spaces_def is_digit_def digits_value_def digit_val_def detect_mime_def

section \<open>The size resolver: properties\<close>

text \<open>
  C1, as the code has it. An orientation decides the size whatever size string comes with
  it: \<open>720x1280\<close> for vertical, \<open>1280x720\<close> for landscape. Without an orientation a
  non-empty size string is returned verbatim; the empty size string and the absent size
  both give the vertical default \<open>720x1280\<close>.
\<close>

theorem getVideoSize_precedence:
  "getVideoSize (Some Vertical) sz = ''720x1280'' \<and>
   getVideoSize (Some Landscape) sz = ''1280x720'' \<and>
   (s \<noteq> [] \<longrightarrow> getVideoSize None (Some s) = s) \<and>
   getVideoSize None (Some []) = ''720x1280'' \<and>
   getVideoSize None None = ''720x1280''"
  by (simp add: getVideoSize_def)

theorem getVideoSize_precedence_witness:
  "''1920x1080'' \<noteq> [] \<and>
   getVideoSize (Some Vertical) (Some ''640x480'') = ''720x1280'' \<and>
   getVideoSize (Some Landscape) (Some ''640x480'') = ''1280x720'' \<and>
   getVideoSize None (Some ''1920x1080'') = ''1920x1080'' \<and>
   getVideoSize None (Some []) = ''720x1280'' \<and>
   getVideoSize None None = ''720x1280''"
  using getVideoSize_precedence [of "Some ''640x480''" "''1920x1080''"] by simp

text \<open>
  C1 as stated fails for the empty size string: it is supplied, the orientation is absent,
  and the result is not that string.
\<close>

theorem getVideoSize_empty_size_not_verbatim:
  "getVideoSize None (Some []) \<noteq> []"
  by (simp add: getVideoSize_def)

section \<open>Facts about strings\<close>

lemma split_on_nonempty: "split_on c s \<noteq> []"
  by (induction s) (auto split: list.splits)

lemma pop_split_on: "pop (split_on c s) = Some (last (split_on c s))"
  by (simp add: pop_def split_on_nonempty)

lemma split_on_no_separator: "c \<notin> set s \<Longrightarrow> split_on c s = [s]"
  by (induction s) auto

lemma toLowerChar_dot: "toLowerChar c = CHR ''.'' \<longleftrightarrow> c = CHR ''.''"
  by (auto simp: toLowerChar_def split: option.splits if_splits)

lemma toLowerCase_dot: "CHR ''.'' \<in> set (toLowerCase s) \<longleftrightarrow> CHR ''.'' \<in> set s"
  by (induction s) (simp_all add: toLowerCase_def toLowerChar_dot eq_commute [of "CHR ''.''"])

lemma length_two: "length xs = 2 \<Longrightarrow> xs = [xs ! 0, xs ! 1]"
  by (cases xs; cases "tl xs") auto

section \<open>MIME detection: properties\<close>

lemma detect_mime_table:
  "detect_mime filename =
     (case mime_table (last (split_on CHR ''.'' (toLowerCase filename))) of
        Some m \<Rightarrow> m | None \<Rightarrow> ''image/jpeg'')"
  by (simp add: detect_mime_def pop_split_on mime_table_def Let_def)

text \<open>
  A file name without a dot has no extension, and the token the code reads is the whole
  lower-cased name.
\<close>

lemma detect_mime_dotless:
  assumes "CHR ''.'' \<notin> set filename"
  shows "detect_mime filename =
           (case mime_table (toLowerCase filename) of Some m \<Rightarrow> m | None \<Rightarrow> ''image/jpeg'')"
  using assms by (simp add: detect_mime_table split_on_no_separator toLowerCase_dot)

text \<open>
  C9. The code at the file name \<open>mp4\<close>, which has no dot and so no extension: the detected
  type is \<open>video/mp4\<close>, where the table read at the extension gives the default
  \<open>image/jpeg\<close>.
\<close>

theorem detect_mime_without_dot:
  "detect_mime ''mp4'' = ''video/mp4''"
  by (simp add: string_defs)

section \<open>create-video: the reference file\<close>

lemma isError_error_envelope: "isError (error_envelope msg)"
  by (simp add: error_envelope_def)

lemma read_input_reference_rejected:
  assumes "size_rejected fs"
  shows "read_input_reference w fs p =
           ([Stat (path_resolve w p)],
            Inl (case fs_stat w (path_resolve w p) of Some e \<Rightarrow> e | None \<Rightarrow> size_error fs))"
  using assms
  by (auto simp: read_input_reference_def size_rejected_def size_error_def Let_def
           split: option.splits)

text \<open>What a successful reading of the reference file has done.\<close>

lemma read_input_reference_Inr:
  assumes "read_input_reference w fs p = (effs, Inr part)"
  shows "split_on CHR ''x'' fs = [split_on CHR ''x'' fs ! 0, split_on CHR ''x'' fs ! 1] \<and>
         \<not> size_rejected fs \<and>
         fs_stat w (path_resolve w p) = None \<and>
         (if prefix ''image/'' (detect_mime (path_basename w (path_resolve w p)))
          then \<exists>buf. sharp_resize w (path_resolve w p) (parseInt (split_on CHR ''x'' fs ! 0))
                        (parseInt (split_on CHR ''x'' fs ! 1)) cover_centre = Inr buf \<and>
                 effs = [Stat (path_resolve w p),
                         Resize (path_resolve w p) (parseInt (split_on CHR ''x'' fs ! 0))
                           (parseInt (split_on CHR ''x'' fs ! 1)) cover_centre] \<and>
                 part = (''input_reference'',
                         File \<lparr>blob_data = ImageBuffer buf,
                               blob_type = detect_mime (path_basename w (path_resolve w p))\<rparr>
                              (path_basename w (path_resolve w p)))
          else \<exists>buf. fs_readFile w (path_resolve w p) = Inr buf \<and>
                 effs = [Stat (path_resolve w p), ReadFile (path_resolve w p)] \<and>
                 part = (''input_reference'',
                         File \<lparr>blob_data = FileBytes buf,
                               blob_type = detect_mime (path_basename w (path_resolve w p))\<rparr>
                              (path_basename w (path_resolve w p))))"
proof -
  have len: "length (split_on CHR ''x'' fs) = 2"
    using assms by (auto simp: read_input_reference_def Let_def split: option.splits if_splits)
  show ?thesis
    using assms length_two [OF len] len
    by (auto simp: read_input_reference_def size_rejected_def Let_def
             split: option.splits if_splits sum.splits)
qed

lemma prepare_media_no_fetch:
  "prepare_media w fs ref = (effs, r) \<Longrightarrow> Fetch req \<notin> set effs"
  by (auto simp: prepare_media_def read_input_reference_def Let_def
           split: option.splits sum.splits prod.splits if_splits)

text \<open>The one request of create-video is sent after the media was prepared.\<close>

lemma create_video_fetch:
  assumes "Fetch req \<in> set (performed (create_video w a))"
  shows "\<exists>apiKey effs parts.
           getApiKey w = Inr apiKey \<and>
           prepare_media w (getVideoSize (cv_orientation a) (cv_size a)) (cv_input_reference a)
             = (effs, Inr parts) \<and>
           req = create_request apiKey
                   (form_fields a (getVideoSize (cv_orientation a) (cv_size a)) @ parts) \<and>
           performed (create_video w a) = effs @ [Fetch req]"
  using assms
  by (auto simp: create_video_def create_video_body_def catch_all_def Let_def
           split: sum.splits prod.splits dest: prepare_media_no_fetch)

lemma prepare_media_Some:
  assumes "truthy ref = Some p" "prepare_media w fs ref = (effs, Inr parts)"
  shows "\<exists>part. read_input_reference w fs p = (effs, Inr part) \<and> parts = [part]"
  using assms by (auto simp: prepare_media_def split: prod.splits sum.splits)

lemma form_field_input_reference:
  "form_field (create_request k (form_fields a fs @ [(''input_reference'', v)])) ''input_reference''
     = Some v"
  by (simp add: form_field_def create_request_def form_fields_def)

lemma form_field_size:
  "form_field (create_request k (form_fields a fs @ parts)) ''size'' = Some (Field fs)"
  by (simp add: form_field_def create_request_def form_fields_def)

text \<open>
  Every size the specification calls well-formed passes the checks of the handler, which
  read from it the values of its two tokens.
\<close>

lemma is_digit_plain:
  assumes "is_digit c"
  shows "\<not> is_space c \<and> c \<noteq> CHR ''-'' \<and> c \<noteq> CHR ''+'' \<and> skip_space (c # cs) = c # cs"
proof -
  from assms have "\<not> is_space c" "c \<noteq> CHR ''-''" "c \<noteq> CHR ''+''"
    "c \<noteq> CHR 0xC2" "c \<noteq> CHR 0xE1" "c \<noteq> CHR 0xE2" "c \<noteq> CHR 0xE3" "c \<noteq> CHR 0xEF"
    by (auto simp: is_digit_def is_space_def Let_def)
  then show ?thesis by (simp add: wide_spaces_def)
qed

lemma parseInt_digits:
  assumes "t \<noteq> []" "list_all is_digit t"
  shows "parseInt t =
           (if 9007199254740992 < digits_value t then Huge False else Finite (digits_value t))"
proof -
  from assms obtain c cs where t: "t = c # cs" and c: "is_digit c" by (cases t) auto
  from assms(2) have all: "takeWhile is_digit t = t"
    by (simp add: takeWhile_eq_all_conv list_all_iff)
  from is_digit_plain [OF c, of cs]
  have "skip_space t = t" "c \<noteq> CHR ''-''" "c \<noteq> CHR ''+''" using t by auto
  with t all show ?thesis by (simp add: parseInt_def)
qed

lemma conforming_size_accepted:
  assumes "conforming_size s"
  shows "\<not> size_rejected s"
proof -
  from assms obtain a b where sp: "split_on CHR ''x'' s = [a, b]"
    and a: "positive_integer_token a" and b: "positive_integer_token b"
    by (auto simp: conforming_size_def split: list.splits)
  from a have pa: "\<not> isNaN (parseInt a)" "\<not> le_zero (parseInt a)"
    by (simp_all add: positive_integer_token_def parseInt_digits)
  from b have pb: "\<not> isNaN (parseInt b)" "\<not> le_zero (parseInt b)"
    by (simp_all add: positive_integer_token_def parseInt_digits)
  from sp pa pb show ?thesis by (simp add: size_rejected_def)
qed

text \<open>White space of more than one byte is skipped: an em space (U+2003) before the width.\<close>

lemma parseInt_skips_em_space:
  "parseInt ([CHR 0xE2, CHR 0x80, CHR 0x83] @ ''720'') = Finite 720 \<and>
   \<not> size_rejected ([CHR 0xE2, CHR 0x80, CHR 0x83] @ ''720x1280'')"
  by (simp add: size_rejected_def string_defs)

text \<open>
  C2, as the code has it. When the credential is set and a non-empty \<open>input_reference\<close> is
  given, a size that does not split on \<open>x\<close> into exactly two parts, or of which a part has
  no leading integer (as \<open>parseInt\<close> reads it: after white space and a sign, before
  anything else) or a leading integer that is zero or negative, makes create-video fail
  after the \<open>stat\<close> of the file alone: nothing is resized, read or sent, and the error
  envelope is returned. Its message is the one of the size check where the file exists,
  and the one of \<open>stat\<close> where \<open>stat\<close> fails.
\<close>

theorem rejected_size_fails_before_resize:
  assumes "getApiKey w = Inr apiKey"
    and "truthy (cv_input_reference a) = Some p"
    and "size_rejected (getVideoSize (cv_orientation a) (cv_size a))"
  shows "performed (create_video w a) = [Stat (path_resolve w p)] \<and>
         isError (returned (create_video w a)) \<and>
         returned (create_video w a) =
           error_envelope (''Error creating video: Failed to process input_reference file: ''
             @ (case fs_stat w (path_resolve w p) of
                  Some e \<Rightarrow> e
                | None \<Rightarrow> size_error (getVideoSize (cv_orientation a) (cv_size a))))"
  using assms read_input_reference_rejected [OF assms(3), of w p]
  by (simp add: create_video_def create_video_body_def catch_all_def prepare_media_def
        isError_error_envelope Let_def)

theorem rejected_size_fails_before_resize_witness:
  "getApiKey ok_world = Inr ''sk-test'' \<and>
   truthy (cv_input_reference (sample_create (Some ''0x480'') (Some ''ref.png''))) = Some ''ref.png'' \<and>
   size_rejected ''0x480'' \<and>
   performed (create_video ok_world (sample_create (Some ''0x480'') (Some ''ref.png'')))
     = [Stat ''/work/ref.png''] \<and>
   isError (returned (create_video ok_world (sample_create (Some ''0x480'') (Some ''ref.png'')))) \<and>
   returned (create_video ok_world (sample_create (Some ''0x480'') (Some ''ref.png''))) =
     error_envelope (''Error creating video: Failed to process input_reference file: ''
       @ invalid_size_dimensions ''0x480'')"
proof -
  let ?a = "sample_create (Some ''0x480'') (Some ''ref.png'')"
  have k: "getApiKey ok_world = Inr ''sk-test''" by (simp add: sample_defs getApiKey_def)
  have r: "truthy (cv_input_reference ?a) = Some ''ref.png''" by (simp add: sample_defs)
  have g: "getVideoSize (cv_orientation ?a) (cv_size ?a) = ''0x480''"
    by (simp add: sample_defs getVideoSize_def)
  have j: "size_rejected ''0x480''" by (simp add: size_rejected_def string_defs)
  have j': "size_rejected (getVideoSize (cv_orientation ?a) (cv_size ?a))" using j g by simp
  have st: "path_resolve ok_world ''ref.png'' = ''/work/ref.png''"
    "fs_stat ok_world ''/work/ref.png'' = None" by (simp_all add: sample_defs)
  have se: "size_error ''0x480'' = invalid_size_dimensions ''0x480''" by (simp add: size_error_def)
  show ?thesis
    using rejected_size_fails_before_resize [OF k r j'] k r j
    by (simp add: g st se isError_error_envelope)
qed

text \<open>
  C2 as stated fails twice. The size \<open>720abcx1280\<close> does not split into two positive
  integer tokens, yet \<open>parseInt\<close> reads 720 from \<open>720abc\<close>: the image is resized and the
  request succeeds. And for the size \<open>abc\<close> with a reference file that does not exist, the
  failure is the one of \<open>stat\<close>, not a validation error.
\<close>

theorem lenient_size_is_resized:
  "\<not> conforming_size ''720abcx1280'' \<and>
   Resize ''/work/ref.png'' (Finite 720) (Finite 1280) cover_centre
     \<in> set (performed (create_video ok_world (sample_create (Some ''720abcx1280'') (Some ''ref.png'')))) \<and>
   \<not> isError (returned (create_video ok_world (sample_create (Some ''720abcx1280'') (Some ''ref.png'')))) \<and>
   \<not> conforming_size ''abc'' \<and>
   returned (create_video ok_world (sample_create (Some ''abc'') (Some ''missing.png''))) =
     error_envelope
       ''Error creating video: Failed to process input_reference file: ENOENT: no such file or directory''"
  by (simp add: conforming_size_def positive_integer_token_def sample_defs handler_defs string_defs
        sharp_resize_def cover_centre_def)

subsection \<open>Images\<close>









subsection \<open>Videos\<close>

text \<open>
  C8. When create-video is given a reference file whose extension is mp4, mov or webm
  (in any case), every request it sends carries, as \<open>input_reference\<close>, exactly the bytes
  that reading the file returns, under the video MIME type; the file is checked to exist
  and read, and nothing is resized.
\<close>

theorem video_reference_passed_through:
  assumes "truthy (cv_input_reference a) = Some p"
    and "pop (split_on CHR ''.'' (toLowerCase (path_basename w (path_resolve w p))))
           \<in> {Some ''mp4'', Some ''mov'', Some ''webm''}"
    and "Fetch req \<in> set (performed (create_video w a))"
  shows "\<exists>fileBuffer.
           fs_readFile w (path_resolve w p) = Inr fileBuffer \<and>
           form_field req ''input_reference'' =
             Some (File \<lparr>blob_data = FileBytes fileBuffer,
                         blob_type = detect_mime (path_basename w (path_resolve w p))\<rparr>
                        (path_basename w (path_resolve w p))) \<and>
           detect_mime (path_basename w (path_resolve w p))
             \<in> {''video/mp4'', ''video/quicktime'', ''video/webm''} \<and>
           performed (create_video w a) =
             [Stat (path_resolve w p), ReadFile (path_resolve w p), Fetch req]"
proof -
  let ?fs = "getVideoSize (cv_orientation a) (cv_size a)"
  let ?mime = "detect_mime (path_basename w (path_resolve w p))"
  from assms(2) have mime: "?mime \<in> {''video/mp4'', ''video/quicktime'', ''video/webm''}"
    by (auto simp: detect_mime_def Let_def)
  then have noimg: "\<not> prefix ''image/'' ?mime" by auto
  from create_video_fetch [OF assms(3)] obtain apiKey effs parts where
    pm: "prepare_media w ?fs (cv_input_reference a) = (effs, Inr parts)"
    and req: "req = create_request apiKey (form_fields a ?fs @ parts)"
    and perf: "performed (create_video w a) = effs @ [Fetch req]"
    by blast
  from prepare_media_Some [OF assms(1) pm] obtain part where
    rd: "read_input_reference w ?fs p = (effs, Inr part)" and parts: "parts = [part]"
    by blast
  from read_input_reference_Inr [OF rd] noimg obtain buf where
    rf: "fs_readFile w (path_resolve w p) = Inr buf"
    and effs: "effs = [Stat (path_resolve w p), ReadFile (path_resolve w p)]"
    and part: "part = (''input_reference'',
                 File \<lparr>blob_data = FileBytes buf, blob_type = ?mime\<rparr>
                      (path_basename w (path_resolve w p)))"
    by auto
  have ff: "form_field req ''input_reference'' =
             Some (File \<lparr>blob_data = FileBytes buf, blob_type = ?mime\<rparr>
                        (path_basename w (path_resolve w p)))"
    unfolding req parts part by (rule form_field_input_reference)
  from rf ff mime perf effs show ?thesis by simp
qed

theorem video_reference_passed_through_witness:
  "truthy (cv_input_reference (sample_create None (Some ''clip.MP4''))) = Some ''clip.MP4'' \<and>
   pop (split_on CHR ''.'' (toLowerCase (path_basename ok_world (path_resolve ok_world ''clip.MP4''))))
     \<in> {Some ''mp4'', Some ''mov'', Some ''webm''} \<and>
   fs_readFile ok_world (path_resolve ok_world ''clip.MP4'') = Inr [0x1A, 0x45, 0xDF, 0xA3] \<and>
   performed (create_video ok_world (sample_create None (Some ''clip.MP4''))) =
     [Stat ''/work/clip.MP4'', ReadFile ''/work/clip.MP4'',
      Fetch (create_request ''sk-test''
            (form_fields (sample_create None (Some ''clip.MP4'')) ''720x1280'' @
             [(''input_reference'',
               File \<lparr>blob_data = FileBytes [0x1A, 0x45, 0xDF, 0xA3],
                     blob_type = ''video/mp4''\<rparr> ''clip.MP4'')]))]"
proof -
  let ?a = "sample_create None (Some ''clip.MP4'')"
  let ?req = "create_request ''sk-test''
            (form_fields ?a ''720x1280'' @
             [(''input_reference'',
               File \<lparr>blob_data = FileBytes [0x1A, 0x45, 0xDF, 0xA3],
                     blob_type = ''video/mp4''\<rparr> ''clip.MP4'')])"
  have r: "truthy (cv_input_reference ?a) = Some ''clip.MP4''" by (simp add: sample_defs)
  have m: "pop (split_on CHR ''.'' (toLowerCase (path_basename ok_world (path_resolve ok_world ''clip.MP4''))))
     \<in> {Some ''mp4'', Some ''mov'', Some ''webm''}"
    by (simp add: sample_defs string_defs)
  have f: "Fetch ?req \<in> set (performed (create_video ok_world ?a))"
    by (simp add: sample_defs handler_defs string_defs)
  have p: "path_resolve ok_world ''clip.MP4'' = ''/work/clip.MP4''" by (simp add: sample_defs)
  have b: "fs_readFile ok_world ''/work/clip.MP4'' = Inr [0x1A, 0x45, 0xDF, 0xA3]"
    by (simp add: sample_defs)
  from video_reference_passed_through [OF r m f] r m
  show ?thesis by (auto simp: p b)
qed

subsection \<open>The empty size\<close>

text \<open>
  C10. When create-video is called without an orientation and with the empty string as
  size, the resolved size is the vertical default \<open>720x1280\<close>, and that, not the empty
  string, is the \<open>size\<close> field of every request it sends.
\<close>

theorem empty_size_is_absent:
  assumes "cv_orientation a = None" and "cv_size a = Some []"
    and "Fetch req \<in> set (performed (create_video w a))"
  shows "getVideoSize (cv_orientation a) (cv_size a) = ''720x1280'' \<and>
         form_field req ''size'' = Some (Field ''720x1280'')"
proof -
  have fs: "getVideoSize (cv_orientation a) (cv_size a) = ''720x1280''"
    using assms(1,2) by (simp add: getVideoSize_def)
  from create_video_fetch [OF assms(3)] obtain apiKey parts where
    "req = create_request apiKey (form_fields a (getVideoSize (cv_orientation a) (cv_size a)) @ parts)"
    by blast
  then have "form_field req ''size'' = Some (Field (getVideoSize (cv_orientation a) (cv_size a)))"
    by (simp only: form_field_size)
  with fs show ?thesis by simp
qed

theorem empty_size_is_absent_witness:
  "cv_orientation (sample_create (Some []) None) = None \<and>
   cv_size (sample_create (Some []) None) = Some [] \<and>
   Fetch (create_request ''sk-test'' (form_fields (sample_create (Some []) None) ''720x1280''))
     \<in> set (performed (create_video ok_world (sample_create (Some []) None))) \<and>
   form_field (create_request ''sk-test'' (form_fields (sample_create (Some []) None) ''720x1280''))
     ''size'' = Some (Field ''720x1280'')"
proof -
  let ?a = "sample_create (Some []) None"
  have o: "cv_orientation ?a = None" and z: "cv_size ?a = Some []" by (simp_all add: sample_defs)
  have f: "Fetch (create_request ''sk-test'' (form_fields ?a ''720x1280''))
     \<in> set (performed (create_video ok_world ?a))"
    by (simp add: sample_defs handler_defs)
  from empty_size_is_absent [OF o z f] o z f show ?thesis by simp
qed

section \<open>Responses that are not ok\<close>

lemma api_error_contains:
  "sublist (show_nat (status r)) (pre @ api_error label r)"
  "sublist (body_text r) (pre @ api_error label r)"
proof -
  have "pre @ api_error label r = (pre @ label) @ show_nat (status r) @ ('' - '' @ body_text r)"
    by (simp add: api_error_def)
  then show "sublist (show_nat (status r)) (pre @ api_error label r)"
    unfolding sublist_def by blast
  have "pre @ api_error label r = (pre @ label @ show_nat (status r) @ '' - '') @ body_text r @ []"
    by (simp add: api_error_def)
  then show "sublist (body_text r) (pre @ api_error label r)"
    unfolding sublist_def by blast
qed

lemma fetch_json_non_ok:
  "remote w req = Inr r \<Longrightarrow> \<not> response_ok r \<Longrightarrow>
   fetch_json w req = Inl (api_error ''Sora API error: '' r)"
  by (simp add: fetch_json_def)

lemma create_video_non_ok:
  assumes "Fetch req \<in> set (performed (create_video w a))" "remote w req = Inr r" "\<not> response_ok r"
  shows "returned (create_video w a) =
           error_envelope (''Error creating video: '' @ api_error ''Sora API error: '' r)"
proof -
  from create_video_fetch [OF assms(1)] obtain apiKey effs parts where
    "getApiKey w = Inr apiKey"
    "prepare_media w (getVideoSize (cv_orientation a) (cv_size a)) (cv_input_reference a)
       = (effs, Inr parts)"
    "req = create_request apiKey
             (form_fields a (getVideoSize (cv_orientation a) (cv_size a)) @ parts)"
    by blast
  with assms(2,3) show ?thesis
    by (simp add: create_video_def create_video_body_def catch_all_def Let_def fetch_json_non_ok)
qed

lemma remix_video_non_ok:
  assumes "Fetch req \<in> set (performed (remix_video w v p))" "remote w req = Inr r" "\<not> response_ok r"
  shows "returned (remix_video w v p) =
           error_envelope (''Error remixing video: '' @ api_error ''Sora API error: '' r)"
  using assms
  by (auto simp: remix_video_def remix_video_body_def catch_all_def Let_def fetch_json_non_ok
           split: sum.splits)

lemma get_video_status_non_ok:
  assumes "Fetch req \<in> set (performed (get_video_status w v))" "remote w req = Inr r"
    "\<not> response_ok r"
  shows "returned (get_video_status w v) =
           error_envelope (''Error getting video status: '' @ api_error ''Sora API error: '' r)"
  using assms
  by (auto simp: get_video_status_def get_video_status_body_def catch_all_def Let_def
        fetch_json_non_ok split: sum.splits)

lemma list_videos_non_ok:
  assumes "Fetch req \<in> set (performed (list_videos w a))" "remote w req = Inr r" "\<not> response_ok r"
  shows "returned (list_videos w a) =
           error_envelope (''Error listing videos: '' @ api_error ''Sora API error: '' r)"
  using assms
  by (auto simp: list_videos_def list_videos_body_def catch_all_def Let_def fetch_json_non_ok
           split: sum.splits)

lemma download_video_non_ok:
  assumes "Fetch req \<in> set (performed (download_video w v x))" "remote w req = Inr r"
    "\<not> response_ok r"
  shows "returned (download_video w v x) =
           error_envelope (''Error preparing video download: '' @ api_error ''Sora API error: '' r)"
  using assms
  by (auto simp: download_video_def download_video_body_def catch_all_def Let_def
        fetch_json_non_ok split: sum.splits)

lemma delete_video_non_ok:
  assumes "Fetch req \<in> set (performed (delete_video w v))" "remote w req = Inr r" "\<not> response_ok r"
  shows "returned (delete_video w v) =
           error_envelope (''Error deleting video: '' @ api_error ''Sora API error: '' r)"
  using assms
  by (auto simp: delete_video_def delete_video_body_def catch_all_def Let_def fetch_json_non_ok
           split: sum.splits)

lemma download_and_save_fetches:
  "download_and_save w k a = (effs, res) \<Longrightarrow> Fetch req \<in> set effs \<Longrightarrow>
   req = content_request k (sv_video_id a)"
  by (auto simp: download_and_save_def Let_def split: sum.splits option.splits if_splits)

lemma download_and_save_non_ok:
  "remote w (content_request k (sv_video_id a)) = Inr r \<Longrightarrow> \<not> response_ok r \<Longrightarrow>
   snd (download_and_save w k a) = Inl (api_error ''Failed to download video: '' r)"
  by (simp add: download_and_save_def Let_def)

text \<open>save-video sends two requests; either answer, when not ok, ends the call.\<close>

lemma save_video_non_ok:
  assumes "Fetch req \<in> set (performed (save_video w a))" "remote w req = Inr r" "\<not> response_ok r"
  shows "\<exists>label. returned (save_video w a) =
           error_envelope (''Error saving video: '' @ api_error label r)"
proof (cases "getApiKey w")
  case (Inl e)
  with assms(1) show ?thesis by (simp add: save_video_def save_video_body_def catch_all_def)
next
  case (Inr apiKey)
  let ?sreq = "status_request apiKey (sv_video_id a)"
  show ?thesis
  proof (cases "req = ?sreq")
    case True
    with assms(2,3) have "fetch_json w ?sreq = Inl (api_error ''Sora API error: '' r)"
      by (simp add: fetch_json_non_ok)
    with Inr show ?thesis
      by (auto simp: save_video_def save_video_body_def catch_all_def Let_def)
  next
    case False
    with assms(1) Inr have "req = content_request apiKey (sv_video_id a) \<and>
        snd (save_video_body w a) = snd (download_and_save w apiKey a)"
      by (auto simp: save_video_def save_video_body_def catch_all_def Let_def
               split: sum.splits if_splits prod.splits dest: download_and_save_fetches)
    with assms(2,3) show ?thesis
      by (auto simp: save_video_def catch_all_def download_and_save_non_ok)
  qed
qed

text \<open>
  C4. For each of the seven tools: when a request the call has sent is answered with a
  status outside 200 to 299, the call returns the error envelope (\<open>isError\<close> is true) whose
  one text block contains the decimal status code and the text of the response body. The
  handlers are total: every call returns an envelope, none passes an error on.
\<close>

theorem non_ok_response_gives_error_envelope:
  assumes "Fetch req \<in> set (performed (call_tool w c))"
    and "remote w req = Inr r"
    and "\<not> response_ok r"
  shows "isError (returned (call_tool w c)) \<and>
         (\<exists>msg. content (returned (call_tool w c)) =
                   [\<lparr>block_type = ''text'', block_text = Plain msg\<rparr>] \<and>
                 sublist (show_nat (status r)) msg \<and> sublist (body_text r) msg)"
proof -
  have "\<exists>pre label. returned (call_tool w c) = error_envelope (pre @ api_error label r)"
  proof (cases c)
    case (CreateVideo a)
    with assms(1) have "Fetch req \<in> set (performed (create_video w a))" by simp
    from create_video_non_ok [OF this assms(2,3)] CreateVideo show ?thesis
      by (simp only: call_tool.simps) blast
  next
    case (RemixVideo v p)
    with assms(1) have "Fetch req \<in> set (performed (remix_video w v p))" by simp
    from remix_video_non_ok [OF this assms(2,3)] RemixVideo show ?thesis
      by (simp only: call_tool.simps) blast
  next
    case (GetVideoStatus v)
    with assms(1) have "Fetch req \<in> set (performed (get_video_status w v))" by simp
    from get_video_status_non_ok [OF this assms(2,3)] GetVideoStatus show ?thesis
      by (simp only: call_tool.simps) blast
  next
    case (ListVideos a)
    with assms(1) have "Fetch req \<in> set (performed (list_videos w a))" by simp
    from list_videos_non_ok [OF this assms(2,3)] ListVideos show ?thesis
      by (simp only: call_tool.simps) blast
  next
    case (DownloadVideo v x)
    with assms(1) have "Fetch req \<in> set (performed (download_video w v x))" by simp
    from download_video_non_ok [OF this assms(2,3)] DownloadVideo show ?thesis
      by (simp only: call_tool.simps) blast
  next
    case (SaveVideo a)
    with assms(1) have "Fetch req \<in> set (performed (save_video w a))" by simp
    from save_video_non_ok [OF this assms(2,3)] SaveVideo show ?thesis
      by (simp only: call_tool.simps) blast
  next
    case (DeleteVideo v)
    with assms(1) have "Fetch req \<in> set (performed (delete_video w v))" by simp
    from delete_video_non_ok [OF this assms(2,3)] DeleteVideo show ?thesis
      by (simp only: call_tool.simps) blast
  qed
  then obtain pre label where
    ret: "returned (call_tool w c) = error_envelope (pre @ api_error label r)"
    by blast
  show ?thesis
    unfolding ret using api_error_contains [of r pre label]
    by (simp add: error_envelope_def)
qed

theorem non_ok_response_gives_error_envelope_witness:
  "Fetch (status_request ''sk-test'' ''abc123'')
     \<in> set (performed (call_tool failing_world (GetVideoStatus ''abc123''))) \<and>
   remote failing_world (status_request ''sk-test'' ''abc123'') = Inr not_found \<and>
   \<not> response_ok not_found \<and>
   isError (returned (call_tool failing_world (GetVideoStatus ''abc123''))) \<and>
   (\<exists>msg. content (returned (call_tool failing_world (GetVideoStatus ''abc123''))) =
            [\<lparr>block_type = ''text'', block_text = Plain msg\<rparr>] \<and>
      sublist (show_nat (status not_found)) msg \<and> sublist (body_text not_found) msg)"
proof -
  have f: "Fetch (status_request ''sk-test'' ''abc123'')
     \<in> set (performed (call_tool failing_world (GetVideoStatus ''abc123'')))"
    by (simp add: get_video_status_def get_video_status_body_def catch_all_def getApiKey_def
          sample_defs Let_def)
  have n: "remote failing_world (status_request ''sk-test'' ''abc123'') = Inr not_found"
    by (simp add: sample_defs)
  have o: "\<not> response_ok not_found" by (simp add: response_ok_def not_found_def)
  from non_ok_response_gives_error_envelope [OF f n o] f n o show ?thesis by simp
qed

section \<open>save-video and download-video: the status check\<close>

lemma status_url_not_content: "req_url (status_request k v) \<noteq> content_url v"
  by (simp add: status_request_def content_url_def)

text \<open>Every string is converted to itself.\<close>

lemma js_to_string_JStr: "js_to_string (JStr s) = Inr s"
  by (simp add: js_to_string_def)

text \<open>
  C5. When the status query of save-video is answered ok with JSON data whose \<open>status\<close>
  is not \<open>completed\<close> and is a value that \<open>String\<close> converts to a text (every string is
  one), the structured content carries that status and an empty \<open>file_path\<close>, and the
  status query is the only request of the call: none goes to the content endpoint of the
  video.
\<close>

theorem save_video_not_completed:
  assumes "getApiKey w = Inr apiKey"
    and "remote w (status_request apiKey (sv_video_id a)) = Inr r"
    and "response_ok r"
    and "body_json r = Inr statusData"
    and "js_get statusData ''status'' = Inr st"
    and "st \<noteq> JStr ''completed''"
    and "js_to_string st = Inr statusText"
  shows "structuredContent (returned (save_video w a)) =
           Some (JObj [(''video_id'', JStr (sv_video_id a)), (''status'', st),
                       (''file_path'', JStr []),
                       (''message'', JStr (''Video is not ready yet. Current status: ''
                                            @ statusText))]) \<and>
         \<not> isError (returned (save_video w a)) \<and>
         performed (save_video w a) = [Fetch (status_request apiKey (sv_video_id a))] \<and>
         (\<forall>req. Fetch req \<in> set (performed (save_video w a)) \<longrightarrow>
                req_url req \<noteq> content_url (sv_video_id a))"
proof -
  have fj: "fetch_json w (status_request apiKey (sv_video_id a)) = Inr statusData"
    using assms(2,3,4) by (simp add: fetch_json_def)
  have perf: "performed (save_video w a) = [Fetch (status_request apiKey (sv_video_id a))]"
    using assms(1,5,6,7) fj
    by (simp add: save_video_def save_video_body_def catch_all_def Let_def)
  have ret: "returned (save_video w a) =
      success_envelope (Stringified (JObj [(''video_id'', JStr (sv_video_id a)), (''status'', st),
                       (''file_path'', JStr []), (''message'', JStr (not_ready_message statusText))]))
        (JObj [(''video_id'', JStr (sv_video_id a)), (''status'', st),
                       (''file_path'', JStr []), (''message'', JStr (not_ready_message statusText))])"
    using assms(1,5,6,7) fj
    by (simp add: save_video_def save_video_body_def catch_all_def Let_def)
  show ?thesis
    by (simp add: perf ret success_envelope_def status_url_not_content not_ready_message_def)
qed

theorem save_video_not_completed_witness:
  "getApiKey progress_world = Inr ''sk-test'' \<and>
   remote progress_world (status_request ''sk-test'' (sv_video_id sample_save)) =
     Inr (json_response 200 (JObj [(''id'', JStr ''abc123''), (''status'', JStr ''in_progress'')])) \<and>
   response_ok (json_response 200 (JObj [(''id'', JStr ''abc123''), (''status'', JStr ''in_progress'')])) \<and>
   js_get (JObj [(''id'', JStr ''abc123''), (''status'', JStr ''in_progress'')]) ''status''
     = Inr (JStr ''in_progress'') \<and>
   JStr ''in_progress'' \<noteq> JStr ''completed'' \<and>
   js_to_string (JStr ''in_progress'') = Inr ''in_progress'' \<and>
   structuredContent (returned (save_video progress_world sample_save)) =
     Some (JObj [(''video_id'', JStr ''abc123''), (''status'', JStr ''in_progress''),
                 (''file_path'', JStr []),
                 (''message'', JStr ''Video is not ready yet. Current status: in_progress'')]) \<and>
   performed (save_video progress_world sample_save) =
     [Fetch (status_request ''sk-test'' ''abc123'')]"
proof -
  let ?d = "JObj [(''id'', JStr ''abc123''), (''status'', JStr ''in_progress'')]"
  have k: "getApiKey progress_world = Inr ''sk-test''" by (simp add: sample_defs getApiKey_def)
  have n: "remote progress_world (status_request ''sk-test'' (sv_video_id sample_save)) =
     Inr (json_response 200 ?d)" by (simp add: sample_defs)
  have o: "response_ok (json_response 200 ?d)" by (simp add: response_ok_def json_response_def)
  have b: "body_json (json_response 200 ?d) = Inr ?d" by (simp add: json_response_def)
  have g: "js_get ?d ''status'' = Inr (JStr ''in_progress'')" by simp
  have c: "JStr ''in_progress'' \<noteq> JStr ''completed''" by simp
  have s: "js_to_string (JStr ''in_progress'') = Inr ''in_progress''"
    by (rule js_to_string_JStr)
  have v: "sv_video_id sample_save = ''abc123''" by (simp add: sample_save_def)
  from save_video_not_completed [OF k n o b g c s] k n o g c s
  show ?thesis by (simp add: v)
qed

text \<open>
  A status that \<open>String\<close> cannot convert ends the call in the error envelope, still after
  the status query alone.
\<close>

lemma save_video_unprintable_status:
  assumes "getApiKey w = Inr apiKey"
    and "remote w (status_request apiKey (sv_video_id a)) = Inr r"
    and "response_ok r"
    and "body_json r = Inr statusData"
    and "js_get statusData ''status'' = Inr st"
    and "unprintable st"
  shows "isError (returned (save_video w a)) \<and>
         performed (save_video w a) = [Fetch (status_request apiKey (sv_video_id a))]"
proof -
  have fj: "fetch_json w (status_request apiKey (sv_video_id a)) = Inr statusData"
    using assms(2,3,4) by (simp add: fetch_json_def)
  from assms(6) have ne: "st \<noteq> JStr ''completed''" by auto
  from assms(1,5,6) fj ne show ?thesis
    by (simp add: save_video_def save_video_body_def catch_all_def Let_def js_to_string_def
          isError_error_envelope)
qed

lemma curl_command_contains:
  "sublist apiKey (curl_command apiKey url video_id)"
  "sublist video_id (curl_command apiKey url video_id)"
proof -
  have "curl_command apiKey url video_id =
          (''curl -H '' @ [dq] @ ''Authorization: Bearer '') @ apiKey
            @ ([dq] @ '' '' @ [dq] @ url @ [dq] @ '' -o '' @ [dq] @ video_id @ ''.mp4'' @ [dq])"
    by (simp add: curl_command_def)
  then show "sublist apiKey (curl_command apiKey url video_id)"
    unfolding sublist_def by blast
  have "curl_command apiKey url video_id =
          (''curl -H '' @ [dq] @ ''Authorization: Bearer '' @ apiKey @ [dq] @ '' '' @ [dq] @ url
             @ [dq] @ '' -o '' @ [dq]) @ video_id @ (''.mp4'' @ [dq])"
    by (simp add: curl_command_def)
  then show "sublist video_id (curl_command apiKey url video_id)"
    unfolding sublist_def by blast
qed

text \<open>
  C7. When the status query of download-video is answered ok with JSON data that has a
  \<open>status\<close> which \<open>String\<close> converts to a text (every string is one): if it is
  \<open>completed\<close>, the \<open>curl_command\<close> of the structured content contains the video id and
  the API key; otherwise the structured content carries that status, the not-ready message
  and an empty \<open>curl_command\<close>.
\<close>

theorem download_video_branches:
  assumes "getApiKey w = Inr apiKey"
    and "remote w (status_request apiKey video_id) = Inr r"
    and "response_ok r"
    and "body_json r = Inr statusData"
    and "js_get statusData ''status'' = Inr st"
    and "js_to_string st = Inr statusText"
  shows "\<exists>props. structuredContent (returned (download_video w video_id variant)) = Some (JObj props) \<and>
           \<not> isError (returned (download_video w video_id variant)) \<and>
           (if st = JStr ''completed''
            then \<exists>cmd. map_of props ''curl_command'' = Some (JStr cmd) \<and>
                   sublist video_id cmd \<and> sublist apiKey cmd
            else map_of props ''status'' = Some st \<and>
                 map_of props ''message'' =
                   Some (JStr (''Video is not ready yet. Current status: '' @ statusText)) \<and>
                 map_of props ''curl_command'' = Some (JStr []))"
proof -
  have fj: "fetch_json w (status_request apiKey video_id) = Inr statusData"
    using assms(2,3,4) by (simp add: fetch_json_def)
  show ?thesis
  proof (cases "st = JStr ''completed''")
    case True
    with assms(1,5) fj show ?thesis
      by (simp add: download_video_def download_video_body_def catch_all_def Let_def
            success_envelope_def curl_command_contains)
  next
    case False
    with assms(1,5,6) fj show ?thesis
      by (simp add: download_video_def download_video_body_def catch_all_def Let_def
            success_envelope_def not_ready_message_def)
  qed
qed

theorem download_video_branches_witness:
  "getApiKey completed_world = Inr ''sk-test'' \<and>
   remote completed_world (status_request ''sk-test'' ''abc123'') =
     Inr (json_response 200 (JObj [(''id'', JStr ''abc123''), (''status'', JStr ''completed'')])) \<and>
   response_ok (json_response 200 (JObj [(''id'', JStr ''abc123''), (''status'', JStr ''completed'')])) \<and>
   js_get (JObj [(''id'', JStr ''abc123''), (''status'', JStr ''completed'')]) ''status''
     = Inr (JStr ''completed'') \<and>
   js_to_string (JStr ''completed'') = Inr ''completed'' \<and>
   (\<exists>props cmd. structuredContent (returned (download_video completed_world ''abc123'' None))
        = Some (JObj props) \<and>
      map_of props ''curl_command'' = Some (JStr cmd) \<and>
      sublist ''abc123'' cmd \<and> sublist ''sk-test'' cmd)"
proof -
  let ?d = "JObj [(''id'', JStr ''abc123''), (''status'', JStr ''completed'')]"
  have k: "getApiKey completed_world = Inr ''sk-test''" by (simp add: sample_defs getApiKey_def)
  have n: "remote completed_world (status_request ''sk-test'' ''abc123'') =
     Inr (json_response 200 ?d)" by (simp add: sample_defs)
  have o: "response_ok (json_response 200 ?d)" by (simp add: response_ok_def json_response_def)
  have b: "body_json (json_response 200 ?d) = Inr ?d" by (simp add: json_response_def)
  have g: "js_get ?d ''status'' = Inr (JStr ''completed'')" by simp
  have s: "js_to_string (JStr ''completed'') = Inr ''completed''" by (rule js_to_string_JStr)
  from download_video_branches [OF k n o b g s, of None] k n o g s
  show ?thesis by auto
qed

section \<open>delete-video: the merged object\<close>

lemma map_of_set_prop: "map_of (set_prop k v ps) = (map_of ps)(k \<mapsto> v)"
  by (induction ps) auto

lemma map_of_fold_set_prop:
  "map_of (fold (\<lambda>p. set_prop (fst p) (snd p)) qs ps) k =
     (case map_of (rev qs) k of Some v \<Rightarrow> Some v | None \<Rightarrow> map_of ps k)"
proof (induction qs arbitrary: ps)
  case Nil
  then show ?case by simp
next
  case (Cons q qs)
  show ?case
    by (cases q) (simp add: Cons map_of_set_prop map_add_def split: option.splits)
qed

lemma map_of_spread_present:
  assumes "distinct (map fst (own_props data))" "(k, v) \<in> set (own_props data)"
  shows "map_of (spread props data) k = Some v"
proof -
  have "distinct (map fst (rev (own_props data)))" using assms(1) by (simp add: rev_map [symmetric])
  moreover have "(k, v) \<in> set (rev (own_props data))" using assms(2) by simp
  ultimately have "map_of (rev (own_props data)) k = Some v" by (rule map_of_is_SomeI)
  then show ?thesis by (simp add: spread_def map_of_fold_set_prop)
qed

lemma map_of_spread_absent:
  assumes "k \<notin> fst ` set (own_props data)"
  shows "map_of (spread props data) k = map_of props k"
proof -
  have "map_of (rev (own_props data)) k = None" using assms by (simp add: map_of_eq_None_iff)
  then show ?thesis by (simp add: spread_def map_of_fold_set_prop)
qed

text \<open>
  C6, as the code has it. When the request of delete-video is answered ok with JSON data
  (an object has no key twice), the structured content holds every property of that data
  with the value the remote gave it, and \<open>id\<close> (the video id), \<open>deleted\<close> (true) and
  \<open>message\<close> (the success message) wherever the data has no property of that name.
\<close>

theorem delete_video_merges_remote_fields:
  assumes "getApiKey w = Inr apiKey"
    and "remote w (delete_request apiKey video_id) = Inr r"
    and "response_ok r"
    and "body_json r = Inr data"
    and "distinct (map fst (own_props data))"
  shows "\<exists>props. structuredContent (returned (delete_video w video_id)) = Some (JObj props) \<and>
           \<not> isError (returned (delete_video w video_id)) \<and>
           (\<forall>k v. (k, v) \<in> set (own_props data) \<longrightarrow> map_of props k = Some v) \<and>
           (''id'' \<notin> fst ` set (own_props data) \<longrightarrow> map_of props ''id'' = Some (JStr video_id)) \<and>
           (''deleted'' \<notin> fst ` set (own_props data) \<longrightarrow>
              map_of props ''deleted'' = Some (JBool True)) \<and>
           (''message'' \<notin> fst ` set (own_props data) \<longrightarrow>
              map_of props ''message'' = Some (JStr (''Successfully deleted video '' @ video_id)))"
proof -
  have fj: "fetch_json w (delete_request apiKey video_id) = Inr data"
    using assms(2,3,4) by (simp add: fetch_json_def)
  have ret: "returned (delete_video w video_id) =
      success_envelope (Stringified (JObj (spread (delete_fields video_id) data)))
        (JObj (spread (delete_fields video_id) data))"
    using assms(1) fj by (simp add: delete_video_def delete_video_body_def catch_all_def Let_def)
  have present: "\<forall>k v. (k, v) \<in> set (own_props data) \<longrightarrow>
      map_of (spread (delete_fields video_id) data) k = Some v"
    using map_of_spread_present [OF assms(5)] by blast
  show ?thesis
    using present
    by (simp add: ret success_envelope_def map_of_spread_absent delete_fields_def)
qed

theorem delete_video_merges_remote_fields_witness:
  "getApiKey (deleting_world True) = Inr ''sk-test'' \<and>
   remote (deleting_world True) (delete_request ''sk-test'' ''xyz'')
     = Inr (json_response 200 (deleted_reply True)) \<and>
   response_ok (json_response 200 (deleted_reply True)) \<and>
   distinct (map fst (own_props (deleted_reply True))) \<and>
   (\<exists>props. structuredContent (returned (delete_video (deleting_world True) ''xyz''))
        = Some (JObj props) \<and>
      map_of props ''object'' = Some (JStr ''video.deleted'') \<and>
      map_of props ''deleted'' = Some (JBool True) \<and>
      map_of props ''message'' = Some (JStr ''Successfully deleted video xyz''))"
proof -
  have k: "getApiKey (deleting_world True) = Inr ''sk-test''"
    by (simp add: sample_defs getApiKey_def)
  have n: "remote (deleting_world True) (delete_request ''sk-test'' ''xyz'')
     = Inr (json_response 200 (deleted_reply True))" by (simp add: sample_defs)
  have o: "response_ok (json_response 200 (deleted_reply True))"
    by (simp add: response_ok_def json_response_def)
  have b: "body_json (json_response 200 (deleted_reply True)) = Inr (deleted_reply True)"
    by (simp add: json_response_def)
  have d: "distinct (map fst (own_props (deleted_reply True)))" by (simp add: deleted_reply_def)
  have p: "own_props (deleted_reply True) =
    [(''id'', JStr ''xyz''), (''object'', JStr ''video.deleted''), (''deleted'', JBool True)]"
    by (simp add: deleted_reply_def)
  from delete_video_merges_remote_fields [OF k n o b d] k n o d
  show ?thesis by (auto simp: p)
qed

text \<open>
  C6 as stated fails when the remote answers ok with \<open>deleted\<close> false: the property of the
  remote data is set last, and the structured content says \<open>deleted\<close> false.
\<close>

theorem delete_video_remote_deleted_wins:
  "response_ok (json_response 200 (deleted_reply False)) \<and>
   remote (deleting_world False) (delete_request ''sk-test'' ''xyz'')
     = Inr (json_response 200 (deleted_reply False)) \<and>
   structuredContent (returned (delete_video (deleting_world False) ''xyz'')) =
     Some (JObj [(''id'', JStr ''xyz''), (''deleted'', JBool False),
                 (''message'', JStr ''Successfully deleted video xyz''),
                 (''object'', JStr ''video.deleted'')])"
  by (simp add: sample_defs delete_video_def delete_video_body_def delete_request_def
        delete_fields_def spread_def catch_all_def getApiKey_def fetch_json_def response_ok_def
        success_envelope_def bearer_def Let_def)

end
